theory Spec2Isabelle
  imports Complex_Main "HOL-Library.AList"
begin

section \<open>Python values used by the services\<close>

text \<open>
  Timestamps (\<open>time.time()\<close>, \<open>datetime.utcnow()\<close>) and delays are read as real numbers.
  A Python \<open>dict\<close> whose keys are iterated is an association list in insertion order:
  \<open>d[k] = v\<close> is \<open>AList.update k v d\<close>, \<open>del d[k]\<close> is \<open>AList.delete k d\<close>, \<open>k in d\<close> and
  \<open>d[k]\<close> read \<open>map_of d k\<close>. A string is a list of characters with code points below 256;
  Python text with other characters has no counterpart here.
\<close>

type_synonym timestamp = real

type_synonym ('k, 'v) dict = "('k \<times> 'v) list"

definition dict_contains :: "('k, 'v) dict \<Rightarrow> 'k \<Rightarrow> bool" where
  \<comment> \<open>\<open>k in d\<close>\<close>
  "dict_contains d k = (case map_of d k of None \<Rightarrow> False | Some _ \<Rightarrow> True)"

definition dict_get :: "('k, 'v) dict \<Rightarrow> 'k \<Rightarrow> 'v \<Rightarrow> 'v" where
  \<comment> \<open>\<open>d.get(k, default)\<close>\<close>
  "dict_get d k dflt = (case map_of d k of None \<Rightarrow> dflt | Some v \<Rightarrow> v)"

datatype py_error = ValueError

text \<open>
  A raised \<open>HTTPException\<close>: its status code, and of its detail the \<open>code\<close> field, or the
  \<open>error\<close> field where the detail has no code.
\<close>

datatype HTTPException = HTTPException (status_code: nat) (code: string)

definition lower_char :: "char \<Rightarrow> char" where
  \<comment> \<open>\<open>A\<close> to \<open>Z\<close>, and the capital letters of the code points 192 to 222 (215 is the
      multiplication sign), have their small letter 32 places further on\<close>
  "lower_char c =
     (let n = (of_char c :: nat)
      in if (65 \<le> n \<and> n \<le> 90) \<or> (192 \<le> n \<and> n \<le> 222 \<and> n \<noteq> 215) then char_of (n + 32) else c)"

definition lower :: "string \<Rightarrow> string" where
  \<comment> \<open>\<open>str.lower()\<close>\<close>
  "lower s = map lower_char s"

definition before_first :: "char \<Rightarrow> string \<Rightarrow> string" where
  \<comment> \<open>\<open>s.partition(c)[0]\<close>\<close>
  "before_first c s = takeWhile (\<lambda>x. x \<noteq> c) s"

definition after_first :: "char \<Rightarrow> string \<Rightarrow> string" where
  \<comment> \<open>\<open>s.partition(c)[2]\<close>\<close>
  "after_first c s = drop 1 (dropWhile (\<lambda>x. x \<noteq> c) s)"

definition after_last :: "char \<Rightarrow> string \<Rightarrow> string" where
  \<comment> \<open>\<open>s.rpartition(c)[2]\<close>\<close>
  "after_last c s = rev (takeWhile (\<lambda>x. x \<noteq> c) (rev s))"

fun split_on :: "char \<Rightarrow> string \<Rightarrow> string list" where
  \<comment> \<open>\<open>s.split(sep)\<close> for a one-character separator\<close>
  "split_on sep [] = [[]]"
| "split_on sep (c # cs) =
     (if c = sep then [] # split_on sep cs
      else (case split_on sep cs of [] \<Rightarrow> [[c]] | p # ps \<Rightarrow> (c # p) # ps))"

section \<open>The standard library's IP addresses, as far as the code reads them\<close>

text \<open>
  \<open>ipaddress.ip_address(s)\<close> belongs to the Python standard library, not to the repository.
  It tries \<open>IPv4Address(s)\<close>, then \<open>IPv6Address(s)\<close>, and raises \<open>ValueError\<close> (here \<open>None\<close>)
  when both fail. The code reads \<open>is_private\<close> and \<open>is_loopback\<close> of the result, and
  \<open>urlparse\<close> asks whether the text inside square brackets is an IPv6 address. The
  definitions follow CPython 3.11.10: an address is its number (32 or 128 bits), a network
  its first address and prefix length; the scope of an IPv6 address is checked and
  dropped, since no property read here depends on it.
\<close>

datatype ip_addr = IPv4 int | IPv6 int

definition decimal :: "string \<Rightarrow> int" where
  \<comment> \<open>\<open>int(s, 10)\<close> on a string of ASCII digits\<close>
  "decimal s = foldl (\<lambda>n c. 10 * n + (of_char c - 48)) 0 s"

definition parse_octet :: "string \<Rightarrow> int option" where
  \<comment> \<open>\<open>_parse_octet\<close>\<close>
  "parse_octet octet_str =
     (if octet_str = [] then None
      else if \<not> list_all (\<lambda>c. c \<in> set ''0123456789'') octet_str then None
      else if length octet_str > 3 then None
      else if octet_str \<noteq> ''0'' \<and> hd octet_str = CHR ''0'' then None
      else if decimal octet_str > 255 then None
      else Some (decimal octet_str))"

definition IPv4Address :: "string \<Rightarrow> int option" where
  \<comment> \<open>\<open>IPv4Address(addr_str)._ip\<close>\<close>
  "IPv4Address addr_str =
     (if CHR ''/'' \<in> set addr_str \<or> addr_str = [] then None
      else (case map parse_octet (split_on (CHR ''.'') addr_str) of
              [Some a, Some b, Some c, Some d] \<Rightarrow> Some (((a * 256 + b) * 256 + c) * 256 + d)
            | _ \<Rightarrow> None))"

definition hex_digit :: "char \<Rightarrow> int" where
  "hex_digit c =
     (case map_of (zip ''0123456789abcdefABCDEF''
                       [0, 1, 2, 3, 4, 5, 6, 7, 8, 9, 10, 11, 12, 13, 14, 15, 10, 11, 12, 13, 14, 15]) c of
        Some v \<Rightarrow> v
      | None \<Rightarrow> 0)"

definition parse_hextet :: "string \<Rightarrow> int option" where
  \<comment> \<open>\<open>_parse_hextet\<close>; \<open>int('', 16)\<close> raises\<close>
  "parse_hextet hextet_str =
     (if \<not> list_all (\<lambda>c. c \<in> set ''0123456789ABCDEFabcdef'') hextet_str then None
      else if length hextet_str > 4 then None
      else if hextet_str = [] then None
      else Some (foldl (\<lambda>n c. 16 * n + hex_digit c) 0 hextet_str))"

definition hex_str :: "int \<Rightarrow> string" where
  \<comment> \<open>\<open>'%x' % n\<close> for a number below 65536\<close>
  "hex_str n =
     (case dropWhile (\<lambda>c. c = CHR ''0'')
             (map (\<lambda>k. ''0123456789abcdef'' ! nat ((n div 16 ^ k) mod 16)) [3, 2, 1, 0]) of
        [] \<Rightarrow> ''0''
      | s \<Rightarrow> s)"

fun shift_in :: "int \<Rightarrow> string list \<Rightarrow> int option" where
  \<comment> \<open>\<open>ip_int <<= 16; ip_int |= cls._parse_hextet(part)\<close> for each part\<close>
  "shift_in ip_int [] = Some ip_int"
| "shift_in ip_int (p # ps) =
     (case parse_hextet p of None \<Rightarrow> None | Some h \<Rightarrow> shift_in (ip_int * 65536 + h) ps)"

definition ipv6_int_from_string :: "string \<Rightarrow> int option" where
  \<comment> \<open>\<open>_BaseV6._ip_int_from_string\<close>\<close>
  "ipv6_int_from_string ip_str =
     (if ip_str = [] then None
      else
        (let parts0 = split_on (CHR '':'') ip_str
         in if length parts0 < 3 then None
            else
              (case (if CHR ''.'' \<in> set (last parts0)
                     then (case IPv4Address (last parts0) of
                             None \<Rightarrow> None
                           | Some ipv4_int \<Rightarrow>
                               Some (butlast parts0
                                       @ [hex_str ((ipv4_int div 65536) mod 65536),
                                          hex_str (ipv4_int mod 65536)]))
                     else Some parts0) of
                 None \<Rightarrow> None
               | Some parts \<Rightarrow>
                   if length parts > 9 then None
                   else
                     (case filter (\<lambda>i. parts ! i = []) [1..<length parts - 1] of
                        [] \<Rightarrow>
                          if length parts \<noteq> 8 \<or> hd parts = [] \<or> last parts = [] then None
                          else shift_in 0 parts
                      | [skip_index] \<Rightarrow>
                          (let parts_hi = (if hd parts = [] then skip_index - 1 else skip_index);
                               parts_lo = (if last parts = [] then length parts - skip_index - 2
                                           else length parts - skip_index - 1)
                           in if (hd parts = [] \<and> parts_hi \<noteq> 0) \<or> (last parts = [] \<and> parts_lo \<noteq> 0)
                                 \<or> parts_hi + parts_lo \<ge> 8
                              then None
                              else
                                (case shift_in 0 (take parts_hi parts) of
                                   None \<Rightarrow> None
                                 | Some ip_int \<Rightarrow>
                                     shift_in (ip_int * 2 ^ (16 * (8 - (parts_hi + parts_lo))))
                                       (drop (length parts - parts_lo) parts)))
                      | _ \<Rightarrow> None))))"

definition IPv6Address :: "string \<Rightarrow> int option" where
  \<comment> \<open>\<open>IPv6Address(addr_str)._ip\<close>, after \<open>_split_scope_id\<close>\<close>
  "IPv6Address addr_str =
     (if CHR ''/'' \<in> set addr_str then None
      else if CHR ''%'' \<in> set addr_str
              \<and> (after_first (CHR ''%'') addr_str = []
                    \<or> CHR ''%'' \<in> set (after_first (CHR ''%'') addr_str))
      then None
      else ipv6_int_from_string (before_first (CHR ''%'') addr_str))"

definition ip_address :: "string \<Rightarrow> ip_addr option" where
  "ip_address address =
     (case IPv4Address address of
        Some a \<Rightarrow> Some (IPv4 a)
      | None \<Rightarrow> (case IPv6Address address of Some a \<Rightarrow> Some (IPv6 a) | None \<Rightarrow> None))"

definition in_network :: "nat \<Rightarrow> int \<Rightarrow> int \<times> nat \<Rightarrow> bool" where
  \<comment> \<open>\<open>address in network\<close> for addresses of \<open>bits\<close> bits: the address and the network's
      first address agree on the first \<open>prefixlen\<close> bits\<close>
  "in_network bits address net =
     (case net of (first, prefixlen) \<Rightarrow>
        address div 2 ^ (bits - prefixlen) = first div 2 ^ (bits - prefixlen))"

definition v4 :: "int \<Rightarrow> int \<Rightarrow> int \<Rightarrow> int \<Rightarrow> int" where
  "v4 a b c d = ((a * 256 + b) * 256 + c) * 256 + d"

definition v6 :: "int list \<Rightarrow> int" where
  \<comment> \<open>the address with the given eight groups\<close>
  "v6 groups = foldl (\<lambda>n g. n * 65536 + g) 0 groups"

definition ipv4_private_networks :: "(int \<times> nat) list" where
  "ipv4_private_networks =
     [(v4 0 0 0 0, 8), (v4 10 0 0 0, 8), (v4 127 0 0 0, 8), (v4 169 254 0 0, 16),
      (v4 172 16 0 0, 12), (v4 192 0 0 0, 24), (v4 192 0 0 170, 31), (v4 192 0 2 0, 24),
      (v4 192 168 0 0, 16), (v4 198 18 0 0, 15), (v4 198 51 100 0, 24),
      (v4 203 0 113 0, 24), (v4 240 0 0 0, 4), (v4 255 255 255 255, 32)]"

definition ipv4_private_networks_exceptions :: "(int \<times> nat) list" where
  "ipv4_private_networks_exceptions = [(v4 192 0 0 9, 32), (v4 192 0 0 10, 32)]"

definition ipv6_private_networks :: "(int \<times> nat) list" where
  "ipv6_private_networks =
     [(v6 [0, 0, 0, 0, 0, 0, 0, 1], 128), (v6 [0, 0, 0, 0, 0, 0, 0, 0], 128),
      (v6 [0, 0, 0, 0, 0, 0xffff, 0, 0], 96), (v6 [0x64, 0xff9b, 1, 0, 0, 0, 0, 0], 48),
      (v6 [0x100, 0, 0, 0, 0, 0, 0, 0], 64), (v6 [0x2001, 0, 0, 0, 0, 0, 0, 0], 23),
      (v6 [0x2001, 0xdb8, 0, 0, 0, 0, 0, 0], 32), (v6 [0x2002, 0, 0, 0, 0, 0, 0, 0], 16),
      (v6 [0xfc00, 0, 0, 0, 0, 0, 0, 0], 7), (v6 [0xfe80, 0, 0, 0, 0, 0, 0, 0], 10)]"

definition ipv6_private_networks_exceptions :: "(int \<times> nat) list" where
  "ipv6_private_networks_exceptions =
     [(v6 [0x2001, 1, 0, 0, 0, 0, 0, 1], 128), (v6 [0x2001, 1, 0, 0, 0, 0, 0, 2], 128),
      (v6 [0x2001, 3, 0, 0, 0, 0, 0, 0], 32), (v6 [0x2001, 4, 0x112, 0, 0, 0, 0, 0], 48),
      (v6 [0x2001, 0x20, 0, 0, 0, 0, 0, 0], 28), (v6 [0x2001, 0x30, 0, 0, 0, 0, 0, 0], 28)]"

definition ipv4_is_private :: "int \<Rightarrow> bool" where
  "ipv4_is_private a =
     (list_ex (in_network 32 a) ipv4_private_networks
      \<and> list_all (\<lambda>net. \<not> in_network 32 a net) ipv4_private_networks_exceptions)"

fun is_private :: "ip_addr \<Rightarrow> bool" where
  "is_private (IPv4 a) = ipv4_is_private a"
| "is_private (IPv6 a) =
     (if a div 2 ^ 32 = 0xffff then ipv4_is_private (a mod 2 ^ 32)
      else list_ex (in_network 128 a) ipv6_private_networks
           \<and> list_all (\<lambda>net. \<not> in_network 128 a net) ipv6_private_networks_exceptions)"

fun is_loopback :: "ip_addr \<Rightarrow> bool" where
  "is_loopback (IPv4 a) = in_network 32 a (v4 127 0 0 0, 8)"
| "is_loopback (IPv6 a) = (a = 1)"

section \<open>The standard library's URL parser, as far as the code reads it\<close>

text \<open>
  \<open>urllib.parse.urlparse\<close> belongs to the Python standard library, not to the repository.
  The code reads three components of its result: \<open>scheme\<close>, \<open>netloc\<close> and \<open>hostname\<close>.
  The definitions follow \<open>urlsplit\<close> of CPython 3.11.10 for these components: leading
  control characters and spaces are stripped, tab, CR and LF are removed, a scheme is
  split off at the first colon when everything before it is a scheme character, the
  network location is what follows \<open>//\<close> up to the first of \<open>/ ? #\<close>; unbalanced square
  brackets in it raise \<open>ValueError\<close>, and so does text in brackets that is neither an IPv6
  address nor of the form \<open>v<hex>.<text>\<close>. The last check of \<open>urlsplit\<close> raises only when
  the compatibility normal form of the network location brings in one of \<open>/ ? # @ :\<close>,
  which no character below 256 does.
\<close>

definition ascii_letters :: string where
  "ascii_letters = ''abcdefghijklmnopqrstuvwxyzABCDEFGHIJKLMNOPQRSTUVWXYZ''"

definition scheme_chars :: string where
  "scheme_chars = ascii_letters @ ''0123456789+-.''"

definition hex_chars :: string where
  "hex_chars = ''0123456789abcdefABCDEF''"

definition check_bracketed_host :: "string \<Rightarrow> bool" where
  \<comment> \<open>\<open>_check_bracketed_host\<close>: \<open>False\<close> when it raises \<open>ValueError\<close>. The pattern is
      \<open>\Av[a-fA-F0-9]+\..+\Z\<close>, where the dot matches anything but a line feed.\<close>
  "check_bracketed_host host =
     (if take 1 host = ''v''
      then (let digits = takeWhile (\<lambda>c. c \<in> set hex_chars) (drop 1 host);
                rest = dropWhile (\<lambda>c. c \<in> set hex_chars) (drop 1 host)
            in digits \<noteq> [] \<and> take 1 rest = ''.'' \<and> drop 1 rest \<noteq> []
               \<and> CHR 0x0A \<notin> set (drop 1 rest))
      else (case ip_address host of Some (IPv6 a) \<Rightarrow> True | _ \<Rightarrow> False))"

record ParseResult =
  scheme :: string
  netloc :: string

definition urlparse :: "string \<Rightarrow> py_error + ParseResult" where
  "urlparse url0 =
     (let url1 = dropWhile (\<lambda>c. of_char c \<le> (32::nat)) url0;
          url2 = filter (\<lambda>c. c \<notin> set [CHR 0x09, CHR 0x0D, CHR 0x0A]) url1;
          head = before_first (CHR '':'') url2;
          has_scheme = (CHR '':'' \<in> set url2 \<and> head \<noteq> [] \<and> hd head \<in> set ascii_letters
                          \<and> list_all (\<lambda>c. c \<in> set scheme_chars) head);
          sch = (if has_scheme then lower head else []);
          url3 = (if has_scheme then after_first (CHR '':'') url2 else url2);
          loc = (if take 2 url3 = ''//''
                 then takeWhile (\<lambda>c. c \<notin> set ''/?#'') (drop 2 url3) else [])
      in if (CHR ''['' \<in> set loc \<and> CHR '']'' \<notin> set loc)
            \<or> (CHR '']'' \<in> set loc \<and> CHR ''['' \<notin> set loc)
         then Inl ValueError
         else if CHR ''['' \<in> set loc \<and> CHR '']'' \<in> set loc
                 \<and> \<not> check_bracketed_host (before_first (CHR '']'') (after_first (CHR ''['') loc))
         then Inl ValueError
         else Inr \<lparr>scheme = sch, netloc = loc\<rparr>)"

definition hostname :: "ParseResult \<Rightarrow> string option" where
  \<comment> \<open>the \<open>hostname\<close> property: user information and port removed, brackets of an IPv6
      literal removed, lower case up to a zone separator \<open>%\<close>; \<open>None\<close> when empty\<close>
  "hostname p =
     (let hostinfo = after_last (CHR ''@'') (netloc p);
          host = (if CHR ''['' \<in> set hostinfo
                  then before_first (CHR '']'') (after_first (CHR ''['') hostinfo)
                  else before_first (CHR '':'') hostinfo)
      in if host = [] then None
         else Some (lower (before_first (CHR ''%'') host)
                      @ dropWhile (\<lambda>c. c \<noteq> CHR ''%'') host))"

definition url_hostname :: "string \<Rightarrow> py_error + string option" where
  \<comment> \<open>\<open>urlparse(url).hostname\<close>\<close>
  "url_hostname url = (case urlparse url of Inl e \<Rightarrow> Inl e | Inr p \<Rightarrow> Inr (hostname p))"

definition url_scheme :: "string \<Rightarrow> string" where
  \<comment> \<open>the scheme alone, found as \<open>urlsplit\<close> finds it; empty when the text has none\<close>
  "url_scheme url0 =
     (let url1 = dropWhile (\<lambda>c. of_char c \<le> (32::nat)) url0;
          url2 = filter (\<lambda>c. c \<notin> set [CHR 0x09, CHR 0x0D, CHR 0x0A]) url1;
          head = before_first (CHR '':'') url2
      in if CHR '':'' \<in> set url2 \<and> head \<noteq> [] \<and> hd head \<in> set ascii_letters
            \<and> list_all (\<lambda>c. c \<in> set scheme_chars) head
         then lower head else [])"

section \<open>The async endpoint: request validation and callback URL checks (main.py, models.py)\<close>

text \<open>
  The checks the body of \<open>async_endpoint\<close> makes on \<open>callback_url_str\<close> before it creates the
  request record, as one function: \<open>Inl\<close> is the \<open>HTTPException\<close> raised, with its status code
  and the \<open>code\<close> field of its detail, \<open>Inr ()\<close> means the handler goes on to accept the
  request. \<open>environment\<close> is the value of \<open>os.getenv('ENVIRONMENT', 'development')\<close>. An
  \<open>HTTPException\<close> is not a \<open>ValueError\<close>, so the \<open>except ValueError\<close> clauses do not catch
  the ones raised inside the \<open>try\<close> blocks.
\<close>

definition blocked_hosts :: "string list" where
  "blocked_hosts = [''localhost'', ''127.0.0.1'', ''0.0.0.0'', ''::1'', ''metadata.google.internal'']"

definition metadata_domains :: "string list" where
  "metadata_domains = [''metadata.google.internal'', ''169.254.169.254'', ''metadata.azure.com'']"

definition callback_url_check :: "string \<Rightarrow> string \<Rightarrow> HTTPException + unit" where
  "callback_url_check environment callback_url_str =
     (if \<not> (take 7 callback_url_str = ''http://'' \<or> take 8 callback_url_str = ''https://'')
      then Inl (HTTPException 400 ''INVALID_CALLBACK_URL'')
      else
        (case urlparse callback_url_str of
           Inl ValueError \<Rightarrow> Inl (HTTPException 400 ''MALFORMED_URL'')
         | Inr parsed \<Rightarrow>
             if scheme parsed \<notin> set [''http'', ''https'']
             then Inl (HTTPException 400 ''INVALID_SCHEME'')
             else
               (case hostname parsed of
                  None \<Rightarrow> Inr ()
                | Some host \<Rightarrow>
                    if lower host \<in> set blocked_hosts \<and> environment = ''production''
                    then Inl (HTTPException 400 ''BLOCKED_HOST'')
                    else if (case ip_address host of
                               None \<Rightarrow> False
                             | Some ip \<Rightarrow>
                                 (is_private ip \<or> is_loopback ip) \<and> environment = ''production'')
                    then Inl (HTTPException 400 ''PRIVATE_IP_BLOCKED'')
                    else if lower host \<in> set metadata_domains
                    then Inl (HTTPException 400 ''METADATA_BLOCKED'')
                    else Inr ())))"

text \<open>
  Before the body of \<open>async_endpoint\<close> runs, the request is validated against
  \<open>AsyncWorkRequest\<close> (models.py), whose field \<open>callback_url\<close> has the pydantic type
  \<open>HttpUrl\<close>. pydantic and FastAPI are not part of the repository. Of them this is
  modelled: \<open>HttpUrl\<close> refuses a URL whose scheme is not \<open>http\<close> or \<open>https\<close>; what else it
  refuses, and the text \<open>str(request.callback_url)\<close> of a URL it accepts, is the parameter
  \<open>pydantic_url\<close>; a request that fails validation is answered with status 422. main.py
  registers \<open>validation_exception_handler\<close> for \<open>HTTPException\<close> only, and that handler
  answers with the status code of the exception.
\<close>

definition HttpUrl :: "(string \<Rightarrow> string option) \<Rightarrow> string \<Rightarrow> string option" where
  "HttpUrl pydantic_url url =
     (if url_scheme url \<in> set [''http'', ''https''] then pydantic_url url else None)"

datatype request_error = RequestValidationError | Raised HTTPException

fun response_status :: "request_error \<Rightarrow> nat" where
  "response_status RequestValidationError = 422"
| "response_status (Raised exc) = status_code exc"

definition async_endpoint ::
  "string \<Rightarrow> (string \<Rightarrow> string option) \<Rightarrow> bool \<Rightarrow> string \<Rightarrow> request_error + unit" where
  \<comment> \<open>\<open>async_endpoint\<close> up to the creation of the request record, for a request that the
      rate-limit dependency admitted and whose other fields are valid. \<open>valid_input\<close> is
      the value of \<open>WorkProcessor.validate_input(request.data)\<close>, \<open>url\<close> the \<open>callback_url\<close>
      of the request body.\<close>
  "async_endpoint environment pydantic_url valid_input url =
     (case HttpUrl pydantic_url url of
        None \<Rightarrow> Inl RequestValidationError
      | Some callback_url_str \<Rightarrow>
          if \<not> valid_input then Inl (Raised (HTTPException 400 ''INVALID_INPUT''))
          else (case callback_url_check environment callback_url_str of
                  Inl exc \<Rightarrow> Inl (Raised exc)
                | Inr ok \<Rightarrow> Inr ok))"

section \<open>RateLimiter and the rate-limit dependency (main.py)\<close>











section \<open>CallbackService: circuit breaker and delivery (services.py)\<close>

record CallbackService =
  max_retries :: nat
  retry_delay :: real
  circuit_breaker_threshold :: int
  circuit_breaker_reset_timeout :: real
  failed_callbacks :: "(string, int) dict"
  circuit_breaker_state :: "(string, timestamp) dict"

definition CallbackService_init :: CallbackService where
  \<comment> \<open>\<open>CallbackService.__init__\<close>\<close>
  "CallbackService_init =
     \<lparr>max_retries = 3, retry_delay = 1, circuit_breaker_threshold = 5,
      circuit_breaker_reset_timeout = 60, failed_callbacks = [], circuit_breaker_state = []\<rparr>"

definition get_domain :: "string \<Rightarrow> py_error + string" where
  \<comment> \<open>\<open>_get_domain\<close>: \<open>urlparse(url).netloc\<close>\<close>
  "get_domain url = (case urlparse url of Inl e \<Rightarrow> Inl e | Inr p \<Rightarrow> Inr (netloc p))"

definition is_circuit_open :: "CallbackService \<Rightarrow> string \<Rightarrow> timestamp \<Rightarrow> bool \<times> CallbackService" where
  \<comment> \<open>\<open>_is_circuit_open\<close>; \<open>now\<close> is the value of \<open>time.time()\<close>. The result carries the
      service after the call, since the method resets an expired circuit in place.\<close>
  "is_circuit_open self domain now =
     (case map_of (circuit_breaker_state self) domain of
        None \<Rightarrow> (False, self)
      | Some last_failure \<Rightarrow>
          let failure_count = dict_get (failed_callbacks self) domain 0 in
          if failure_count < circuit_breaker_threshold self then (False, self)
          else if now - last_failure > circuit_breaker_reset_timeout self
          then (False, self\<lparr>failed_callbacks := AList.update domain 0 (failed_callbacks self),
                            circuit_breaker_state := AList.delete domain (circuit_breaker_state self)\<rparr>)
          else (True, self))"

definition record_callback_failure :: "CallbackService \<Rightarrow> string \<Rightarrow> timestamp \<Rightarrow> CallbackService" where
  \<comment> \<open>\<open>_record_callback_failure\<close>\<close>
  "record_callback_failure self domain now =
     self\<lparr>failed_callbacks :=
            AList.update domain (dict_get (failed_callbacks self) domain 0 + 1) (failed_callbacks self),
          circuit_breaker_state := AList.update domain now (circuit_breaker_state self)\<rparr>"

definition record_callback_success :: "CallbackService \<Rightarrow> string \<Rightarrow> CallbackService" where
  \<comment> \<open>\<open>_record_callback_success\<close>\<close>
  "record_callback_success self domain =
     self\<lparr>failed_callbacks :=
            (if dict_contains (failed_callbacks self) domain
             then AList.delete domain (failed_callbacks self) else failed_callbacks self),
          circuit_breaker_state :=
            (if dict_contains (circuit_breaker_state self) domain
             then AList.delete domain (circuit_breaker_state self) else circuit_breaker_state self)\<rparr>"

text \<open>
  What one \<open>session.post\<close> can do: answer with a status code, time out, fail in the
  client, or raise anything else. The three \<open>except\<close> clauses only print.
\<close>

datatype attempt_outcome = Response int | TimeoutError | ClientError | OtherError

text \<open>
  The effects of a delivery call, in order: the POST of attempt \<open>attempt\<close> (counted
  from 0, as the loop variable is), the \<open>asyncio.sleep(delay)\<close> calls, and the calls of
  \<open>_record_callback_success\<close> and \<open>_record_callback_failure\<close>.
\<close>

datatype event = is_Post: Post (attempt_of: nat) | Sleep real | RecordSuccess | RecordFailure

fun status_is_200 :: "attempt_outcome \<Rightarrow> bool" where
  \<comment> \<open>\<open>response.status == 200\<close>, reached only when the POST returned a response\<close>
  "status_is_200 (Response status) = (status = 200)"
| "status_is_200 _ = False"

definition delay :: "CallbackService \<Rightarrow> (nat \<Rightarrow> real) \<Rightarrow> nat \<Rightarrow> real" where
  \<comment> \<open>\<open>delay = self.retry_delay * (2 ** attempt) + jitter\<close>\<close>
  "delay self jitter attempt = retry_delay self * 2 ^ attempt + jitter attempt"

function send_callback_loop ::
  "CallbackService \<Rightarrow> string \<Rightarrow> (nat \<Rightarrow> attempt_outcome) \<Rightarrow> (nat \<Rightarrow> real) \<Rightarrow> timestamp \<Rightarrow> nat
     \<Rightarrow> bool \<times> CallbackService \<times> event list" where
  \<comment> \<open>the \<open>for attempt in range(self.max_retries)\<close> loop from \<open>attempt\<close> on, and the code
      after it. Inside the loop \<open>max_retries\<close> is positive, so \<open>max_retries - 1\<close> is the
      integer difference.\<close>
  "send_callback_loop self domain post jitter t_fail attempt =
     (if attempt < max_retries self then
        (if status_is_200 (post attempt)
         then (True, record_callback_success self domain, [Post attempt, RecordSuccess])
         else
           (let backoff =
                  (if attempt < max_retries self - 1
                   then [Sleep (delay self jitter attempt)] else []);
                (delivered, self', events) =
                  send_callback_loop self domain post jitter t_fail (attempt + 1)
            in (delivered, self', Post attempt # backoff @ events)))
      else (False, record_callback_failure self domain t_fail, [RecordFailure]))"
  by pat_completeness auto
termination
  by (relation "measure (\<lambda>(self, domain, post, jitter, t_fail, attempt). max_retries self - attempt)")
     auto

definition send_callback ::
  "CallbackService \<Rightarrow> string \<Rightarrow> timestamp \<Rightarrow> (nat \<Rightarrow> attempt_outcome) \<Rightarrow> (nat \<Rightarrow> real) \<Rightarrow> timestamp
     \<Rightarrow> py_error + bool \<times> CallbackService \<times> event list" where
  \<comment> \<open>\<open>send_callback\<close>. \<open>t_check\<close> is the clock read by the circuit check, \<open>post attempt\<close>
      the outcome of the POST of that attempt, \<open>jitter attempt\<close> the value drawn by
      \<open>random.uniform(0.1, 0.3)\<close> after it, \<open>t_fail\<close> the clock read when the failure is
      recorded. The result is the returned flag, the service afterwards and the effects.\<close>
  "send_callback self callback_url t_check post jitter t_fail =
     (case get_domain callback_url of
        Inl e \<Rightarrow> Inl e
      | Inr domain \<Rightarrow>
          (case is_circuit_open self domain t_check of
             (True, self') \<Rightarrow> Inr (False, self', [])
           | (False, self') \<Rightarrow> Inr (send_callback_loop self' domain post jitter t_fail 0)))"

section \<open>RequestService and the async pipeline: the request record (services.py)\<close>

datatype RequestMode = SYNC | ASYNC

datatype RequestStatus = PENDING | PROCESSING | COMPLETED | FAILED | CALLBACK_SENT | CALLBACK_FAILED

text \<open>
  A JSON object is a list of keys with the JSON text of their values; the \<open>result\<close> column
  holds its serialisation and is modelled by the object itself. The table is a map from
  the primary key \<open>request_id\<close> to the row.
\<close>

type_synonym payload = "(string \<times> string) list"

record RequestRecord =
  request_id :: string
  mode :: RequestMode
  status :: RequestStatus
  input_data :: string
  result :: "payload option"
  processing_time_ms :: "real option"
  callback_url :: "string option"
  callback_attempts :: int
  created_at :: timestamp
  completed_at :: "timestamp option"
  error_message :: "string option"

type_synonym db = "string \<rightharpoonup> RequestRecord"

definition update_request_status ::
  "db \<Rightarrow> string \<Rightarrow> RequestStatus \<Rightarrow> payload option \<Rightarrow> real option \<Rightarrow> string option \<Rightarrow> timestamp
     \<Rightarrow> unit \<times> db" where
  \<comment> \<open>\<open>update_request_status\<close>, with \<open>req_id\<close> for its parameter \<open>request_id\<close>. The method
      has no \<open>return\<close>: it returns \<open>None\<close> on both paths. \<open>if result:\<close> holds for a non-empty
      object, \<open>if processing_time_ms:\<close> for a number other than 0, \<open>if error_message:\<close> for
      a non-empty string. \<open>now\<close> is the value of \<open>datetime.utcnow()\<close>.\<close>
  "update_request_status db req_id new_status result_arg processing_time_arg error_arg now =
     (case db req_id of
        None \<Rightarrow> ((), db)
      | Some record \<Rightarrow>
          (let r1 = record\<lparr>status := new_status\<rparr>;
               r2 = (case result_arg of
                       Some obj \<Rightarrow> if obj \<noteq> [] then r1\<lparr>result := Some obj\<rparr> else r1
                     | None \<Rightarrow> r1);
               r3 = (case processing_time_arg of
                       Some ms \<Rightarrow> if ms \<noteq> 0 then r2\<lparr>processing_time_ms := Some ms\<rparr> else r2
                     | None \<Rightarrow> r2);
               r4 = (if new_status \<in> set [COMPLETED, FAILED, CALLBACK_SENT]
                     then r3\<lparr>completed_at := Some now\<rparr> else r3);
               r5 = (case error_arg of
                       Some msg \<Rightarrow> if msg \<noteq> [] then r4\<lparr>error_message := Some msg\<rparr> else r4
                     | None \<Rightarrow> r4)
           in ((), db(req_id \<mapsto> r5))))"

function str_nat :: "nat \<Rightarrow> string" where
  \<comment> \<open>a non-negative integer in an f-string\<close>
  "str_nat n = (if n < 10 then [char_of (48 + n)] else str_nat (n div 10) @ [char_of (48 + n mod 10)])"
  by pat_completeness auto
termination
  by (relation "measure id") auto

text \<open>
  \<open>process_async_callback\<close>, as the writes it makes to the record. \<open>work\<close> is the outcome of
  loading the input and of \<open>process_work_async\<close>: the result and the processing time, or
  \<open>Inl msg\<close> when an exception with text \<open>msg\<close> was raised. \<open>callback\<close> is the outcome of the
  call of \<open>send_callback\<close>: the returned flag, or \<open>Inl msg\<close> when it raised. \<open>now\<close> is the
  clock at the transition to \<open>COMPLETED\<close>, \<open>now_failed\<close> the clock in the \<open>except\<close> block.
  The result is the table after the final commit and the record as it stood after each
  assignment of a status.
\<close>

definition process_async_callback ::
  "CallbackService \<Rightarrow> db \<Rightarrow> string \<Rightarrow> string + payload \<times> real \<Rightarrow> timestamp \<Rightarrow> string + bool
     \<Rightarrow> timestamp \<Rightarrow> db \<times> RequestRecord list" where
  "process_async_callback self db req_id work now callback now_failed =
     (case db req_id of
        None \<Rightarrow> (db, [])
      | Some record \<Rightarrow>
          (let r1 = record\<lparr>status := PROCESSING\<rparr>
           in case work of
                Inl msg \<Rightarrow>
                  (let r = r1\<lparr>status := FAILED, error_message := Some msg,
                                completed_at := Some now_failed\<rparr>
                   in (db(req_id \<mapsto> r), [r1, r]))
              | Inr (work_result, ms) \<Rightarrow>
                  (let r2 = r1\<lparr>status := COMPLETED, result := Some work_result,
                                 processing_time_ms := Some ms, completed_at := Some now\<rparr>
                   in case callback of
                        Inl msg \<Rightarrow>
                          (let r = r2\<lparr>status := FAILED, error_message := Some msg,
                                        completed_at := Some now_failed\<rparr>
                           in (db(req_id \<mapsto> r), [r1, r2, r]))
                      | Inr callback_success \<Rightarrow>
                          (let r3 = (if callback_success
                                     then r2\<lparr>status := CALLBACK_SENT,
                                             callback_attempts := int (max_retries self)\<rparr>
                                     else r2\<lparr>status := CALLBACK_FAILED,
                                             error_message :=
                                               Some (''Callback failed after ''
                                                     @ str_nat (max_retries self) @ '' attempts'')\<rparr>)
                           in (db(req_id \<mapsto> r3), [r1, r2, r3])))))"

text \<open>
  \<open>get_circuit_breaker_stats\<close>. The loop runs over the set of keys of both dictionaries;
  every key is visited once, in an order Python does not fix, taken here as the order of
  first occurrence. Each iteration reads the failure count and the last failure time and
  then calls \<open>_is_circuit_open\<close>, which may reset the circuit it is asked about. All
  iterations read the same clock value \<open>now\<close>.
\<close>

record DomainStats =
  state :: string
  failure_count :: int
  last_failure_time :: timestamp
  circuit_open :: bool

record GlobalStats =
  total_domains_tracked :: nat
  open_circuits :: nat
  circuit_threshold :: int
  reset_timeout :: real

fun stats_loop ::
  "CallbackService \<Rightarrow> timestamp \<Rightarrow> string list \<Rightarrow> (string, DomainStats) dict
     \<Rightarrow> (string, DomainStats) dict \<times> CallbackService" where
  "stats_loop self now [] stats = (stats, self)"
| "stats_loop self now (domain # domains) stats =
     (let failure_count = dict_get (failed_callbacks self) domain 0;
          last_failure = dict_get (circuit_breaker_state self) domain 0;
          (is_open, self') = is_circuit_open self domain now
      in stats_loop self' now domains
           (AList.update domain
              \<lparr>state = (if is_open then ''open'' else ''closed''),
               failure_count = failure_count,
               last_failure_time = last_failure,
               circuit_open = is_open\<rparr> stats))"

definition tracked_domains :: "CallbackService \<Rightarrow> string list" where
  \<comment> \<open>\<open>set(list(self.failed_callbacks.keys()) + list(self.circuit_breaker_state.keys()))\<close>\<close>
  "tracked_domains self =
     remdups (map fst (failed_callbacks self) @ map fst (circuit_breaker_state self))"

definition get_circuit_breaker_stats ::
  "CallbackService \<Rightarrow> timestamp \<Rightarrow> ((string, DomainStats) dict \<times> GlobalStats) \<times> CallbackService" where
  \<comment> \<open>the returned dictionary (\<open>domains\<close> and \<open>global_stats\<close>) and the service afterwards\<close>
  "get_circuit_breaker_stats self now =
     (let (stats, self') = stats_loop self now (tracked_domains self) []
      in ((stats,
           \<lparr>total_domains_tracked = length stats,
            open_circuits = length (filter (\<lambda>(domain, d). state d = ''open'') stats),
            circuit_threshold = circuit_breaker_threshold self',
            reset_timeout = circuit_breaker_reset_timeout self'\<rparr>),
          self'))"

section \<open>Example inputs\<close>

definition example_service :: "int \<Rightarrow> timestamp \<Rightarrow> CallbackService" where
  \<comment> \<open>a service with the default settings that has recorded \<open>n\<close> failures for
      \<open>example.com\<close>, the last one at time \<open>t\<close>\<close>
  "example_service n t =
     CallbackService_init\<lparr>failed_callbacks := [(''example.com'', n)],
                           circuit_breaker_state := [(''example.com'', t)]\<rparr>"

definition example_service_8080 :: CallbackService where
  \<comment> \<open>a service with the default settings that has recorded five failures under the key
      \<open>example.com:8080\<close>, the last one at time 100\<close>
  "example_service_8080 =
     CallbackService_init\<lparr>failed_callbacks := [(''example.com:8080'', 5)],
                           circuit_breaker_state := [(''example.com:8080'', 100)]\<rparr>"

definition always :: "attempt_outcome \<Rightarrow> nat \<Rightarrow> attempt_outcome" where
  \<comment> \<open>a destination that answers every attempt the same way\<close>
  "always out attempt = out"

definition succeed_at :: "nat \<Rightarrow> nat \<Rightarrow> attempt_outcome" where
  \<comment> \<open>a destination that answers 500 until attempt \<open>k\<close>, which it answers with 200\<close>
  "succeed_at k attempt = (if attempt = k then Response 200 else Response 500)"

definition jitter_low :: "nat \<Rightarrow> real" where
  \<comment> \<open>the smallest value \<open>random.uniform(0.1, 0.3)\<close> can draw, every time\<close>
  "jitter_low attempt = 1 / 10"


definition example_record :: RequestRecord where
  \<comment> \<open>a sync request completed at time 10\<close>
  "example_record =
     \<lparr>request_id = ''r1'', mode = SYNC, status = COMPLETED, input_data = ''{}'',
      result = Some [(''ok'', ''true'')], processing_time_ms = Some 5, callback_url = None,
      callback_attempts = 0, created_at = 0, completed_at = Some 10, error_message = None\<rparr>"

definition example_async_record :: RequestRecord where
  \<comment> \<open>an async request as \<open>create_request_record\<close> stores it\<close>
  "example_async_record =
     \<lparr>request_id = ''r2'', mode = ASYNC, status = PENDING, input_data = ''{}'',
      result = None, processing_time_ms = None,
      callback_url = Some ''https://example.com/callback'',
      callback_attempts = 0, created_at = 15, completed_at = None, error_message = None\<rparr>"

definition example_db :: db where
  "example_db = [''r1'' \<mapsto> example_record, ''r2'' \<mapsto> example_async_record]"

section \<open>Delivery: the retry loop\<close>

declare send_callback_loop.simps [simp del]

lemma is_circuit_open_config:
  "is_circuit_open self domain now = (b, self1) \<Longrightarrow>
   max_retries self1 = max_retries self \<and> retry_delay self1 = retry_delay self"
  by (auto simp: is_circuit_open_def Let_def split: option.splits if_splits)

lemma delay_config:
  "is_circuit_open self domain now = (b, self1) \<Longrightarrow> delay self1 jitter k = delay self jitter k"
  by (simp add: delay_def is_circuit_open_config)

lemma example_domain: "get_domain ''https://example.com/callback'' = Inr ''example.com''"
  by code_simp

lemma loop_all_fail:
  "(\<forall>k. attempt \<le> k \<and> k < max_retries self \<longrightarrow> \<not> status_is_200 (post k)) \<Longrightarrow>
   send_callback_loop self d post jitter t_fail attempt =
     (False, record_callback_failure self d t_fail,
      concat (map (\<lambda>k. Post k # (if k < max_retries self - 1 then [Sleep (delay self jitter k)] else []))
                  [attempt..<max_retries self]) @ [RecordFailure])"
proof (induction self d post jitter t_fail attempt rule: send_callback_loop.induct)
  case (1 self d post jitter t_fail attempt)
  show ?case
  proof (cases "attempt < max_retries self")
    case True
    with "1.prems" have nf: "\<not> status_is_200 (post attempt)" by simp
    from "1.prems" have "\<forall>k. attempt + 1 \<le> k \<and> k < max_retries self \<longrightarrow> \<not> status_is_200 (post k)"
      by simp
    from "1.IH"[OF True nf refl this] True nf show ?thesis
      by (subst send_callback_loop.simps) (simp add: upt_conv_Cons)
  next
    case False
    then show ?thesis by (subst send_callback_loop.simps) simp
  qed
qed

lemma loop_first_success:
  "attempt \<le> k \<Longrightarrow> k < max_retries self \<Longrightarrow> status_is_200 (post k) \<Longrightarrow>
   (\<forall>i. attempt \<le> i \<and> i < k \<longrightarrow> \<not> status_is_200 (post i)) \<Longrightarrow>
   send_callback_loop self d post jitter t_fail attempt =
     (True, record_callback_success self d,
      concat (map (\<lambda>i. [Post i, Sleep (delay self jitter i)]) [attempt..<k])
        @ [Post k, RecordSuccess])"
proof (induction self d post jitter t_fail attempt rule: send_callback_loop.induct)
  case (1 self d post jitter t_fail attempt)
  from "1.prems" have lt: "attempt < max_retries self" by simp
  show ?case
  proof (cases "attempt = k")
    case True
    with "1.prems" lt show ?thesis by (subst send_callback_loop.simps) simp
  next
    case False
    with "1.prems" have ak: "attempt < k" and nf: "\<not> status_is_200 (post attempt)" by simp_all
    from "1.prems" ak have "attempt + 1 \<le> k"
      and "\<forall>i. attempt + 1 \<le> i \<and> i < k \<longrightarrow> \<not> status_is_200 (post i)" by simp_all
    from "1.IH"[OF lt nf refl this(1) "1.prems"(2,3) this(2)] lt nf ak "1.prems"(2) show ?thesis
      by (subst send_callback_loop.simps) (simp add: upt_conv_Cons)
  qed
qed

lemma status_is_200_iff: "status_is_200 out \<longleftrightarrow> out = Response 200"
  by (cases out) auto

text \<open>The trace of a delivery in which every attempt fails.\<close>

lemma posts_of_failed_trace:
  "map attempt_of (filter is_Post (concat (map (\<lambda>k. Post k # (if P k then [Sleep (f k)] else [])) ks) @ [RecordFailure])) = ks"
  by (induction ks) auto




lemmas example_defs = example_service_def CallbackService_init_def always_def succeed_at_def
  jitter_low_def





section \<open>Circuit breaker: clearing the record\<close>

lemma loop_delivered:
  "send_callback_loop self d post jitter t_fail attempt = (True, self', events) \<Longrightarrow>
   self' = record_callback_success self d"
proof (induction self d post jitter t_fail attempt arbitrary: events
       rule: send_callback_loop.induct)
  case (1 self d post jitter t_fail attempt)
  from "1.prems" show ?case
    by (subst (asm) send_callback_loop.simps)
       (auto simp: Let_def split: if_splits prod.splits dest: "1.IH"[OF _ _ refl])
qed

lemma record_callback_success_clears:
  "map_of (failed_callbacks (record_callback_success self d)) d = None
   \<and> map_of (circuit_breaker_state (record_callback_success self d)) d = None"
  by (simp add: record_callback_success_def dict_contains_def delete_conv' split: option.splits)

lemma first_failure_counts_one:
  "map_of (failed_callbacks self) d = None \<or> map_of (failed_callbacks self) d = Some 0 \<Longrightarrow>
   dict_get (failed_callbacks (record_callback_failure self d t)) d 0 = 1"
  by (auto simp: record_callback_failure_def dict_get_def update_conv')

text \<open>
  Claim C3, as the code has it. A delivery that returns \<open>True\<close> leaves no entry for the
  destination in either dictionary. A circuit check made after the reset timeout has
  elapsed past the last failure resets the failure count to 0 and removes the last-failure
  entry when the count had reached the threshold. In both cases the next recorded failure
  sets the failure count to exactly 1.
\<close>

theorem circuit_record_cleared:
  "(get_domain url = Inr domain
      \<and> send_callback self url t_check post jitter t_fail = Inr (True, self', events)
    \<longrightarrow> map_of (failed_callbacks self') domain = None
        \<and> map_of (circuit_breaker_state self') domain = None
        \<and> dict_get (failed_callbacks (record_callback_failure self' domain t)) domain 0 = 1)
   \<and> (map_of (circuit_breaker_state self) domain = Some last_failure
      \<and> circuit_breaker_threshold self \<le> dict_get (failed_callbacks self) domain 0
      \<and> circuit_breaker_reset_timeout self < now - last_failure
    \<longrightarrow> (\<exists>self1. is_circuit_open self domain now = (False, self1)
           \<and> map_of (failed_callbacks self1) domain = Some 0
           \<and> map_of (circuit_breaker_state self1) domain = None
           \<and> dict_get (failed_callbacks (record_callback_failure self1 domain t)) domain 0 = 1))"
proof (intro conjI impI)
  assume a: "get_domain url = Inr domain
      \<and> send_callback self url t_check post jitter t_fail = Inr (True, self', events)"
  then obtain self1 where
    "send_callback_loop self1 domain post jitter t_fail 0 = (True, self', events)"
    by (auto simp: send_callback_def split: prod.splits bool.splits)
  then have s: "self' = record_callback_success self1 domain" by (rule loop_delivered)
  with record_callback_success_clears[of self1 domain]
  show "map_of (failed_callbacks self') domain = None"
    and "map_of (circuit_breaker_state self') domain = None" by simp_all
  then show "dict_get (failed_callbacks (record_callback_failure self' domain t)) domain 0 = 1"
    by (simp add: first_failure_counts_one)
next
  assume "map_of (circuit_breaker_state self) domain = Some last_failure
      \<and> circuit_breaker_threshold self \<le> dict_get (failed_callbacks self) domain 0
      \<and> circuit_breaker_reset_timeout self < now - last_failure"
  then show "\<exists>self1. is_circuit_open self domain now = (False, self1)
           \<and> map_of (failed_callbacks self1) domain = Some 0
           \<and> map_of (circuit_breaker_state self1) domain = None
           \<and> dict_get (failed_callbacks (record_callback_failure self1 domain t)) domain 0 = 1"
    by (simp add: is_circuit_open_def Let_def update_conv' delete_conv' first_failure_counts_one)
qed

lemma example_success:
  "send_callback (example_service 3 100) ''https://example.com/callback'' 110
       (succeed_at 1) jitter_low 120
     = Inr (True, CallbackService_init, [Post 0, Sleep (11 / 10), Post 1, RecordSuccess])"
proof -
  have "is_circuit_open (example_service 3 100) ''example.com'' 110 = (False, example_service 3 100)"
    by (simp add: is_circuit_open_def example_defs dict_get_def)
  moreover have "send_callback_loop (example_service 3 100) ''example.com'' (succeed_at 1) jitter_low 120 0
     = (True, record_callback_success (example_service 3 100) ''example.com'',
        concat (map (\<lambda>i. [Post i, Sleep (delay (example_service 3 100) jitter_low i)]) [0..<1])
        @ [Post 1, RecordSuccess])"
    by (rule loop_first_success) (simp_all add: example_defs)
  ultimately show ?thesis
    by (simp add: send_callback_def example_domain delay_def example_defs
          record_callback_success_def dict_contains_def)
qed

theorem circuit_record_cleared_witness:
  "map_of (failed_callbacks CallbackService_init) ''example.com'' = None
   \<and> map_of (circuit_breaker_state CallbackService_init) ''example.com'' = None
   \<and> dict_get (failed_callbacks (record_callback_failure CallbackService_init ''example.com'' 130))
        ''example.com'' 0 = 1
   \<and> (\<exists>self1. is_circuit_open (example_service 5 100) ''example.com'' 200 = (False, self1)
           \<and> map_of (failed_callbacks self1) ''example.com'' = Some 0
           \<and> map_of (circuit_breaker_state self1) ''example.com'' = None
           \<and> dict_get (failed_callbacks (record_callback_failure self1 ''example.com'' 130))
                ''example.com'' 0 = 1)"
  using circuit_record_cleared
          [where url = "''https://example.com/callback''" and domain = "''example.com''"
             and self = "example_service 3 100" and last_failure = 100 and now = 200
             and self' = CallbackService_init and t_check = 110 and post = "succeed_at 1"
             and jitter = jitter_low and t_fail = 120 and t = 130
             and events = "[Post 0, Sleep (11 / 10), Post 1, RecordSuccess]"]
        circuit_record_cleared
          [where url = "''https://example.com/callback''" and domain = "''example.com''"
             and self = "example_service 5 100" and last_failure = 100 and now = 200
             and self' = CallbackService_init and t_check = 110 and post = "succeed_at 1"
             and jitter = jitter_low and t_fail = 120 and t = 130
             and events = "[Post 0, Sleep (11 / 10), Post 1, RecordSuccess]"]
        example_success example_domain
  by (simp add: example_defs dict_get_def)

text \<open>
  Claim C3 as stated also covers a count below the threshold, and there it fails: with 3
  failures recorded, the last one 100 seconds ago, the circuit check returns \<open>False\<close>
  before it looks at the clock, the count stays 3, and the next recorded failure makes
  it 4.
\<close>

theorem expired_count_below_threshold_kept:
  "circuit_breaker_reset_timeout (example_service 3 100) < 200 - 100
   \<and> is_circuit_open (example_service 3 100) ''example.com'' 200 = (False, example_service 3 100)
   \<and> dict_get (failed_callbacks (example_service 3 100)) ''example.com'' 0 = 3
   \<and> dict_get (failed_callbacks (record_callback_failure (example_service 3 100) ''example.com'' 201))
        ''example.com'' 0 = 4"
  by (simp add: is_circuit_open_def record_callback_failure_def example_defs dict_get_def)

section \<open>Delivery: what counts as success\<close>

text \<open>
  Claim C5, as the code has it. With the circuit closed, an attempt succeeds exactly when
  its response has status 200. The first such attempt \<open>k\<close> ends the delivery: the POSTs
  \<open>0 .. k\<close> were made, with a sleep after each failed one, circuit success is recorded
  and \<open>True\<close> is returned. Every other outcome (another status, a timeout, a client error,
  any other exception) leads to the next attempt, and when no attempt below \<open>max_retries\<close>
  is answered with 200 all of them are made, the circuit failure is recorded last and
  \<open>False\<close> is returned. So the delivery returns \<open>True\<close> exactly when some attempt is
  answered with 200.
\<close>

theorem only_status_200_succeeds:
  assumes "get_domain url = Inr domain"
    and "is_circuit_open self domain t_check = (False, self1)"
  shows "(status_is_200 out \<longleftrightarrow> out = Response 200)
   \<and> (k < max_retries self \<and> post k = Response 200 \<and> (\<forall>i<k. post i \<noteq> Response 200)
      \<longrightarrow> send_callback self url t_check post jitter t_fail
            = Inr (True, record_callback_success self1 domain,
                   concat (map (\<lambda>i. [Post i, Sleep (delay self jitter i)]) [0..<k])
                     @ [Post k, RecordSuccess]))
   \<and> ((\<forall>i<max_retries self. post i \<noteq> Response 200)
      \<longrightarrow> (\<exists>events. send_callback self url t_check post jitter t_fail
                       = Inr (False, record_callback_failure self1 domain t_fail, events)
                   \<and> map attempt_of (filter is_Post events) = [0..<max_retries self]
                   \<and> last events = RecordFailure))
   \<and> ((\<exists>self' events. send_callback self url t_check post jitter t_fail
                         = Inr (True, self', events))
      \<longleftrightarrow> (\<exists>i<max_retries self. post i = Response 200))"
proof -
  from assms(2) have cfg: "max_retries self1 = max_retries self"
      "\<And>k. delay self1 jitter k = delay self jitter k"
    by (simp_all add: is_circuit_open_config delay_config)
  from assms have run: "send_callback self url t_check post jitter t_fail
      = Inr (send_callback_loop self1 domain post jitter t_fail 0)"
    by (simp add: send_callback_def)
  have succ: "send_callback self url t_check post jitter t_fail
            = Inr (True, record_callback_success self1 domain,
                   concat (map (\<lambda>i. [Post i, Sleep (delay self jitter i)]) [0..<k])
                     @ [Post k, RecordSuccess])"
    if "k < max_retries self" "post k = Response 200" "\<forall>i<k. post i \<noteq> Response 200" for k
  proof -
    from that cfg have "0 \<le> k" "k < max_retries self1" "status_is_200 (post k)"
      "\<forall>i. 0 \<le> i \<and> i < k \<longrightarrow> \<not> status_is_200 (post i)"
      by (simp_all add: status_is_200_iff)
    then have "send_callback_loop self1 domain post jitter t_fail 0
        = (True, record_callback_success self1 domain,
           concat (map (\<lambda>i. [Post i, Sleep (delay self1 jitter i)]) [0..<k])
             @ [Post k, RecordSuccess])"
      by (rule loop_first_success)
    with run show ?thesis by (simp only: cfg)
  qed
  have fail: "\<exists>events. send_callback self url t_check post jitter t_fail
                       = Inr (False, record_callback_failure self1 domain t_fail, events)
                   \<and> map attempt_of (filter is_Post events) = [0..<max_retries self]
                   \<and> last events = RecordFailure"
    if "\<forall>i<max_retries self. post i \<noteq> Response 200"
  proof -
    from that cfg have "\<forall>k. 0 \<le> k \<and> k < max_retries self1 \<longrightarrow> \<not> status_is_200 (post k)"
      by (simp add: status_is_200_iff)
    then have "send_callback_loop self1 domain post jitter t_fail 0
          = (False, record_callback_failure self1 domain t_fail,
             concat (map (\<lambda>k. Post k # (if k < max_retries self1 - 1
                                            then [Sleep (delay self1 jitter k)] else []))
                         [0..<max_retries self1]) @ [RecordFailure])"
      (is "_ = (_, _, ?events)")
      by (rule loop_all_fail)
    with run have "send_callback self url t_check post jitter t_fail
        = Inr (False, record_callback_failure self1 domain t_fail, ?events)" by simp
    moreover have "map attempt_of (filter is_Post ?events) = [0..<max_retries self]"
      unfolding cfg(1)[symmetric] by (rule posts_of_failed_trace)
    moreover have "last ?events = RecordFailure" by simp
    ultimately show ?thesis by blast
  qed
  have iff: "(\<exists>self' events. send_callback self url t_check post jitter t_fail
                         = Inr (True, self', events))
      \<longleftrightarrow> (\<exists>i<max_retries self. post i = Response 200)"
  proof
    assume "\<exists>self' events. send_callback self url t_check post jitter t_fail
                         = Inr (True, self', events)"
    then obtain self' events where
      t: "send_callback self url t_check post jitter t_fail = Inr (True, self', events)"
      by blast
    show "\<exists>i<max_retries self. post i = Response 200"
    proof (rule ccontr)
      assume "\<not> (\<exists>i<max_retries self. post i = Response 200)"
      then have "\<forall>i<max_retries self. post i \<noteq> Response 200" by blast
      from fail[OF this] t show False by auto
    qed
  next
    assume "\<exists>i<max_retries self. post i = Response 200"
    then have "\<exists>i. i < max_retries self \<and> post i = Response 200" by blast
    then obtain k where k: "k < max_retries self \<and> post k = Response 200"
      and least: "\<forall>m<k. \<not> (m < max_retries self \<and> post m = Response 200)"
      unfolding exists_least_iff[of "\<lambda>i. i < max_retries self \<and> post i = Response 200"]
      by blast
    from k least have "\<forall>i<k. post i \<noteq> Response 200" by auto
    with k succ[of k] show "\<exists>self' events. send_callback self url t_check post jitter t_fail
                         = Inr (True, self', events)" by blast
  qed
  from succ fail iff show ?thesis by (simp add: status_is_200_iff)
qed

lemma example_closed:
  "is_circuit_open CallbackService_init ''example.com'' 0 = (False, CallbackService_init)"
  by (simp add: is_circuit_open_def CallbackService_init_def)

theorem only_status_200_succeeds_witness:
  "send_callback CallbackService_init ''https://example.com/callback'' 0 (succeed_at 1) jitter_low 10
     = Inr (True, record_callback_success CallbackService_init ''example.com'',
            [Post 0, Sleep (11 / 10), Post 1, RecordSuccess])
   \<and> (\<exists>events. send_callback CallbackService_init ''https://example.com/callback'' 0
                    (always TimeoutError) jitter_low 10
                  = Inr (False, record_callback_failure CallbackService_init ''example.com'' 10, events)
               \<and> map attempt_of (filter is_Post events) = [0, 1, 2]
               \<and> last events = RecordFailure)"
proof -
  note t = only_status_200_succeeds[OF example_domain example_closed]
  have a: "1 < max_retries CallbackService_init \<and> succeed_at 1 1 = Response 200
             \<and> (\<forall>i<1. succeed_at 1 i \<noteq> Response 200)"
    by (simp add: example_defs)
  have b: "\<forall>i<max_retries CallbackService_init. always TimeoutError i \<noteq> Response 200"
    by (simp add: example_defs)
  have u: "[0..<max_retries CallbackService_init] = [0, 1, 2]"
    by (simp add: CallbackService_init_def upt_conv_Cons)
  from t[THEN conjunct2, THEN conjunct1, THEN mp, OF a, of jitter_low 10]
  have "send_callback CallbackService_init ''https://example.com/callback'' 0 (succeed_at 1) jitter_low 10
     = Inr (True, record_callback_success CallbackService_init ''example.com'',
            [Post 0, Sleep (11 / 10), Post 1, RecordSuccess])"
    by (simp add: delay_def CallbackService_init_def jitter_low_def)
  moreover from t[THEN conjunct2, THEN conjunct2, THEN conjunct1, THEN mp, OF b, of jitter_low 10] u
  have "\<exists>events. send_callback CallbackService_init ''https://example.com/callback'' 0
                    (always TimeoutError) jitter_low 10
                  = Inr (False, record_callback_failure CallbackService_init ''example.com'' 10, events)
               \<and> map attempt_of (filter is_Post events) = [0, 1, 2]
               \<and> last events = RecordFailure"
    by simp
  ultimately show ?thesis by blast
qed

text \<open>
  Claim C5 as stated takes every 2xx status for success. A destination that answers 204
  to every attempt gets all three POSTs, a recorded circuit failure and \<open>False\<close>.
\<close>

theorem status_204_is_a_failure:
  "send_callback CallbackService_init ''https://example.com/callback'' 0
       (always (Response 204)) jitter_low 10
     = Inr (False, example_service 1 10,
            [Post 0, Sleep (11 / 10), Post 1, Sleep (21 / 10), Post 2, RecordFailure])"
  by code_simp

section \<open>Circuit breaker statistics\<close>

text \<open>A circuit check touches only the entries of the domain it is asked about.\<close>

lemma check_config:
  "circuit_breaker_threshold (snd (is_circuit_open self d now)) = circuit_breaker_threshold self
   \<and> circuit_breaker_reset_timeout (snd (is_circuit_open self d now))
       = circuit_breaker_reset_timeout self"
  by (auto simp: is_circuit_open_def Let_def split: option.splits)

lemma check_other_domain:
  "d' \<noteq> d \<Longrightarrow>
   map_of (failed_callbacks (snd (is_circuit_open self d now))) d' = map_of (failed_callbacks self) d'
   \<and> map_of (circuit_breaker_state (snd (is_circuit_open self d now))) d'
       = map_of (circuit_breaker_state self) d'"
  by (auto simp: is_circuit_open_def Let_def update_conv' delete_conv' split: option.splits)

lemma check_untracked:
  "map_of (circuit_breaker_state self) d = None \<Longrightarrow> is_circuit_open self d now = (False, self)"
  by (simp add: is_circuit_open_def)

lemma check_agree:
  assumes "circuit_breaker_threshold s1 = circuit_breaker_threshold s2"
    and "circuit_breaker_reset_timeout s1 = circuit_breaker_reset_timeout s2"
    and "map_of (failed_callbacks s1) d = map_of (failed_callbacks s2) d"
    and "map_of (circuit_breaker_state s1) d = map_of (circuit_breaker_state s2) d"
  shows "fst (is_circuit_open s1 d now) = fst (is_circuit_open s2 d now)
   \<and> map_of (failed_callbacks (snd (is_circuit_open s1 d now))) d
       = map_of (failed_callbacks (snd (is_circuit_open s2 d now))) d
   \<and> map_of (circuit_breaker_state (snd (is_circuit_open s1 d now))) d
       = map_of (circuit_breaker_state (snd (is_circuit_open s2 d now))) d"
  using assms
  by (auto simp: is_circuit_open_def Let_def dict_get_def update_conv' delete_conv'
           split: option.splits)

lemma update_fresh: "k \<notin> fst ` set al \<Longrightarrow> AList.update k v al = al @ [(k, v)]"
  by (induction al) auto

lemma stats_loop_result:
  assumes "distinct ds" and "set ds \<inter> fst ` set acc = {}"
  shows "\<exists>self'. stats_loop self now ds acc
           = (acc @ map (\<lambda>d. (d, \<lparr>state = (if fst (is_circuit_open self d now) then ''open'' else ''closed''),
                                   failure_count = dict_get (failed_callbacks self) d 0,
                                   last_failure_time = dict_get (circuit_breaker_state self) d 0,
                                   circuit_open = fst (is_circuit_open self d now)\<rparr>)) ds,
              self')
         \<and> circuit_breaker_threshold self' = circuit_breaker_threshold self
         \<and> circuit_breaker_reset_timeout self' = circuit_breaker_reset_timeout self
         \<and> (\<forall>d. map_of (failed_callbacks self') d
                  = (if d \<in> set ds then map_of (failed_callbacks (snd (is_circuit_open self d now))) d
                     else map_of (failed_callbacks self) d))
         \<and> (\<forall>d. map_of (circuit_breaker_state self') d
                  = (if d \<in> set ds then map_of (circuit_breaker_state (snd (is_circuit_open self d now))) d
                     else map_of (circuit_breaker_state self) d))"
  using assms
proof (induction ds arbitrary: self acc)
  case Nil
  then show ?case by simp
next
  case (Cons d ds)
  define self1 where "self1 = snd (is_circuit_open self d now)"
  define e where "e = \<lparr>state = (if fst (is_circuit_open self d now) then ''open'' else ''closed''),
                       failure_count = dict_get (failed_callbacks self) d 0,
                       last_failure_time = dict_get (circuit_breaker_state self) d 0,
                       circuit_open = fst (is_circuit_open self d now)\<rparr>"
  from Cons.prems have fresh: "d \<notin> fst ` set acc" and dist: "distinct ds" and dnot: "d \<notin> set ds"
    and disj: "set ds \<inter> fst ` set (acc @ [(d, e)]) = {}" by auto
  have step: "stats_loop self now (d # ds) acc = stats_loop self1 now ds (acc @ [(d, e)])"
    using fresh by (simp add: self1_def e_def update_fresh split: prod.splits)
  have cfg: "circuit_breaker_threshold self1 = circuit_breaker_threshold self"
      "circuit_breaker_reset_timeout self1 = circuit_breaker_reset_timeout self"
    by (simp_all add: self1_def check_config)
  have other: "map_of (failed_callbacks self1) x = map_of (failed_callbacks self) x"
      "map_of (circuit_breaker_state self1) x = map_of (circuit_breaker_state self) x"
    if "x \<noteq> d" for x
    using that by (simp_all add: self1_def check_other_domain)
  have same: "fst (is_circuit_open self1 x now) = fst (is_circuit_open self x now)"
      "map_of (failed_callbacks (snd (is_circuit_open self1 x now))) x
         = map_of (failed_callbacks (snd (is_circuit_open self x now))) x"
      "map_of (circuit_breaker_state (snd (is_circuit_open self1 x now))) x
         = map_of (circuit_breaker_state (snd (is_circuit_open self x now))) x"
      "dict_get (failed_callbacks self1) x 0 = dict_get (failed_callbacks self) x 0"
      "dict_get (circuit_breaker_state self1) x 0 = dict_get (circuit_breaker_state self) x 0"
    if "x \<in> set ds" for x
  proof -
    from that dnot have "x \<noteq> d" by auto
    from check_agree[OF cfg other[OF this]] other[OF this]
    show "fst (is_circuit_open self1 x now) = fst (is_circuit_open self x now)"
      "map_of (failed_callbacks (snd (is_circuit_open self1 x now))) x
         = map_of (failed_callbacks (snd (is_circuit_open self x now))) x"
      "map_of (circuit_breaker_state (snd (is_circuit_open self1 x now))) x
         = map_of (circuit_breaker_state (snd (is_circuit_open self x now))) x"
      "dict_get (failed_callbacks self1) x 0 = dict_get (failed_callbacks self) x 0"
      "dict_get (circuit_breaker_state self1) x 0 = dict_get (circuit_breaker_state self) x 0"
      by (simp_all add: dict_get_def)
  qed
  from Cons.IH[OF dist disj, of self1] obtain self' where
    ih: "stats_loop self1 now ds (acc @ [(d, e)])
           = ((acc @ [(d, e)]) @ map (\<lambda>d. (d, \<lparr>state = (if fst (is_circuit_open self1 d now) then ''open'' else ''closed''),
                                   failure_count = dict_get (failed_callbacks self1) d 0,
                                   last_failure_time = dict_get (circuit_breaker_state self1) d 0,
                                   circuit_open = fst (is_circuit_open self1 d now)\<rparr>)) ds,
              self')"
      "circuit_breaker_threshold self' = circuit_breaker_threshold self1"
      "circuit_breaker_reset_timeout self' = circuit_breaker_reset_timeout self1"
      "\<forall>d. map_of (failed_callbacks self') d
                  = (if d \<in> set ds then map_of (failed_callbacks (snd (is_circuit_open self1 d now))) d
                     else map_of (failed_callbacks self1) d)"
      "\<forall>d. map_of (circuit_breaker_state self') d
                  = (if d \<in> set ds then map_of (circuit_breaker_state (snd (is_circuit_open self1 d now))) d
                     else map_of (circuit_breaker_state self1) d)"
    by blast
  have entries: "map (\<lambda>d. (d, \<lparr>state = (if fst (is_circuit_open self1 d now) then ''open'' else ''closed''),
                                   failure_count = dict_get (failed_callbacks self1) d 0,
                                   last_failure_time = dict_get (circuit_breaker_state self1) d 0,
                                   circuit_open = fst (is_circuit_open self1 d now)\<rparr>)) ds
      = map (\<lambda>d. (d, \<lparr>state = (if fst (is_circuit_open self d now) then ''open'' else ''closed''),
                                   failure_count = dict_get (failed_callbacks self) d 0,
                                   last_failure_time = dict_get (circuit_breaker_state self) d 0,
                                   circuit_open = fst (is_circuit_open self d now)\<rparr>)) ds"
    by (rule map_cong) (simp_all add: same)
  have fc: "map_of (failed_callbacks self') x
              = (if x \<in> set (d # ds) then map_of (failed_callbacks (snd (is_circuit_open self x now))) x
                 else map_of (failed_callbacks self) x)" for x
    using ih(4) same(2)[of x] other(1)[of x] dnot by (auto simp: self1_def)
  have cb: "map_of (circuit_breaker_state self') x
              = (if x \<in> set (d # ds) then map_of (circuit_breaker_state (snd (is_circuit_open self x now))) x
                 else map_of (circuit_breaker_state self) x)" for x
    using ih(5) same(3)[of x] other(2)[of x] dnot by (auto simp: self1_def)
  from step ih(1) entries have
    "stats_loop self now (d # ds) acc
       = (acc @ map (\<lambda>d. (d, \<lparr>state = (if fst (is_circuit_open self d now) then ''open'' else ''closed''),
                                   failure_count = dict_get (failed_callbacks self) d 0,
                                   last_failure_time = dict_get (circuit_breaker_state self) d 0,
                                   circuit_open = fst (is_circuit_open self d now)\<rparr>)) (d # ds),
          self')"
    by (simp add: e_def)
  with ih(2,3) cfg fc cb show ?case by auto
qed

lemma stats_loop_unchanged:
  "(\<forall>d \<in> set ds. snd (is_circuit_open self d now) = self) \<Longrightarrow>
   snd (stats_loop self now ds acc) = self"
proof (induction ds arbitrary: acc)
  case Nil
  then show ?case by simp
next
  case (Cons d ds)
  then show ?case by (simp add: split_beta)
qed

lemma check_keeps:
  "(\<forall>last. map_of (circuit_breaker_state self) d = Some last
            \<and> circuit_breaker_threshold self \<le> dict_get (failed_callbacks self) d 0
          \<longrightarrow> now - last \<le> circuit_breaker_reset_timeout self) \<Longrightarrow>
   snd (is_circuit_open self d now) = self"
  by (auto simp: is_circuit_open_def Let_def split: option.splits)


lemma open_count:
  "length (filter ((\<lambda>(domain, d). state d = ''open'')
                     \<circ> (\<lambda>d. (d, \<lparr>state = (if P d then ''open'' else ''closed''), failure_count = f d,
                                    last_failure_time = l d, circuit_open = P d\<rparr>))) ds)
   = length (filter P ds)"
  by (induction ds) auto

lemma untracked_domain:
  "d \<notin> set (tracked_domains self) \<Longrightarrow> is_circuit_open self d now = (False, self)"
  by (rule check_untracked) (auto simp: tracked_domains_def map_of_eq_None_iff)

text \<open>
  Claim C9, as the code has it. \<open>get_circuit_breaker_stats\<close> reports, for every tracked
  domain, the state (\<open>open\<close> or \<open>closed\<close>), the failure count and the last failure time
  as they were before the call, and the numbers of tracked and of open circuits. Its
  effect on the two dictionaries is that of one circuit check per domain: an entry
  changes only for a domain whose failure count has reached the threshold and whose last
  failure is older than the reset timeout, which is reset (count 0, last failure
  removed). When no circuit has expired in this way the service is left exactly as it
  was.
\<close>

theorem stats_snapshot:
  "\<exists>self'.
     get_circuit_breaker_stats self now
       = ((map (\<lambda>d. (d, \<lparr>state = (if fst (is_circuit_open self d now) then ''open'' else ''closed''),
                           failure_count = dict_get (failed_callbacks self) d 0,
                           last_failure_time = dict_get (circuit_breaker_state self) d 0,
                           circuit_open = fst (is_circuit_open self d now)\<rparr>))
               (tracked_domains self),
           \<lparr>total_domains_tracked = length (tracked_domains self),
            open_circuits
              = length (filter (\<lambda>d. fst (is_circuit_open self d now)) (tracked_domains self)),
            circuit_threshold = circuit_breaker_threshold self,
            reset_timeout = circuit_breaker_reset_timeout self\<rparr>),
          self')
     \<and> (\<forall>d. map_of (failed_callbacks self') d
               = map_of (failed_callbacks (snd (is_circuit_open self d now))) d
            \<and> map_of (circuit_breaker_state self') d
               = map_of (circuit_breaker_state (snd (is_circuit_open self d now))) d)
     \<and> ((\<forall>d last. map_of (circuit_breaker_state self) d = Some last
                    \<and> circuit_breaker_threshold self \<le> dict_get (failed_callbacks self) d 0
                  \<longrightarrow> now - last \<le> circuit_breaker_reset_timeout self)
        \<longrightarrow> self' = self)"
proof -
  have "distinct (tracked_domains self)" and "set (tracked_domains self) \<inter> fst ` set [] = {}"
    by (simp_all add: tracked_domains_def)
  from stats_loop_result[OF this, of self now] obtain self' where
    loop: "stats_loop self now (tracked_domains self) []
       = (map (\<lambda>d. (d, \<lparr>state = (if fst (is_circuit_open self d now) then ''open'' else ''closed''),
                           failure_count = dict_get (failed_callbacks self) d 0,
                           last_failure_time = dict_get (circuit_breaker_state self) d 0,
                           circuit_open = fst (is_circuit_open self d now)\<rparr>))
               (tracked_domains self), self')"
    and cfg: "circuit_breaker_threshold self' = circuit_breaker_threshold self"
      "circuit_breaker_reset_timeout self' = circuit_breaker_reset_timeout self"
    and fc: "\<forall>d. map_of (failed_callbacks self') d
                  = (if d \<in> set (tracked_domains self)
                     then map_of (failed_callbacks (snd (is_circuit_open self d now))) d
                     else map_of (failed_callbacks self) d)"
    and cb: "\<forall>d. map_of (circuit_breaker_state self') d
                  = (if d \<in> set (tracked_domains self)
                     then map_of (circuit_breaker_state (snd (is_circuit_open self d now))) d
                     else map_of (circuit_breaker_state self) d)"
    by auto
  from loop cfg have report: "get_circuit_breaker_stats self now
       = ((map (\<lambda>d. (d, \<lparr>state = (if fst (is_circuit_open self d now) then ''open'' else ''closed''),
                           failure_count = dict_get (failed_callbacks self) d 0,
                           last_failure_time = dict_get (circuit_breaker_state self) d 0,
                           circuit_open = fst (is_circuit_open self d now)\<rparr>))
               (tracked_domains self),
           \<lparr>total_domains_tracked = length (tracked_domains self),
            open_circuits
              = length (filter (\<lambda>d. fst (is_circuit_open self d now)) (tracked_domains self)),
            circuit_threshold = circuit_breaker_threshold self,
            reset_timeout = circuit_breaker_reset_timeout self\<rparr>),
          self')"
    by (simp add: get_circuit_breaker_stats_def open_count)
  have maps: "map_of (failed_callbacks self') d
               = map_of (failed_callbacks (snd (is_circuit_open self d now))) d
            \<and> map_of (circuit_breaker_state self') d
               = map_of (circuit_breaker_state (snd (is_circuit_open self d now))) d" for d
    using fc cb untracked_domain[of d self now] by auto
  have keep: "self' = self"
    if "\<forall>d last. map_of (circuit_breaker_state self) d = Some last
                    \<and> circuit_breaker_threshold self \<le> dict_get (failed_callbacks self) d 0
                  \<longrightarrow> now - last \<le> circuit_breaker_reset_timeout self"
  proof -
    from that have "\<forall>d \<in> set (tracked_domains self). snd (is_circuit_open self d now) = self"
      by (auto intro: check_keeps)
    then have "snd (stats_loop self now (tracked_domains self) []) = self"
      by (rule stats_loop_unchanged)
    with loop show ?thesis by simp
  qed
  from report maps keep show ?thesis by blast
qed

theorem stats_snapshot_witness:
  "get_circuit_breaker_stats (example_service 5 100) 130
     = (([(''example.com'', \<lparr>state = ''open'', failure_count = 5, last_failure_time = 100,
                              circuit_open = True\<rparr>)],
         \<lparr>total_domains_tracked = 1, open_circuits = 1, circuit_threshold = 5, reset_timeout = 60\<rparr>),
        example_service 5 100)"
proof -
  have h: "\<forall>d last. map_of (circuit_breaker_state (example_service 5 100)) d = Some last
              \<and> circuit_breaker_threshold (example_service 5 100)
                  \<le> dict_get (failed_callbacks (example_service 5 100)) d 0
            \<longrightarrow> 130 - last \<le> circuit_breaker_reset_timeout (example_service 5 100)"
    by (simp add: example_defs)
  have t: "tracked_domains (example_service 5 100) = [''example.com'']"
    by (simp add: tracked_domains_def example_defs)
  have c: "is_circuit_open (example_service 5 100) ''example.com'' 130 = (True, example_service 5 100)"
    by (simp add: is_circuit_open_def example_defs dict_get_def)
  from stats_snapshot[of "example_service 5 100" 130] h t c show ?thesis
    by (auto simp: example_defs dict_get_def)
qed

text \<open>
  Claim C9 as stated calls the operation read-only. With 5 failures recorded for
  \<open>example.com\<close>, the last one 100 seconds before the call, the statistics call reports the
  circuit closed with failure count 5, and leaves failure count 0 and no last-failure
  entry behind.
\<close>

theorem stats_reset_expired_circuit:
  "get_circuit_breaker_stats (example_service 5 100) 200
     = (([(''example.com'', \<lparr>state = ''closed'', failure_count = 5, last_failure_time = 100,
                              circuit_open = False\<rparr>)],
         \<lparr>total_domains_tracked = 1, open_circuits = 0, circuit_threshold = 5, reset_timeout = 60\<rparr>),
        CallbackService_init\<lparr>failed_callbacks := [(''example.com'', 0)]\<rparr>)
   \<and> failed_callbacks (example_service 5 100) = [(''example.com'', 5)]
   \<and> circuit_breaker_state (example_service 5 100) = [(''example.com'', 100)]
   \<and> circuit_breaker_state (CallbackService_init\<lparr>failed_callbacks := [(''example.com'', 0)]\<rparr>) = []"
  by code_simp

section \<open>Rate limiting\<close>









section \<open>The request record: status transitions\<close>

lemma update_present:
  "db req_id = Some r \<Longrightarrow>
   \<exists>r'. update_request_status db req_id new_status res ms err now = ((), db(req_id \<mapsto> r'))
        \<and> status r' = new_status
        \<and> request_id r' = request_id r
        \<and> completed_at r'
            = (if new_status \<in> set [COMPLETED, FAILED, CALLBACK_SENT] then Some now
               else completed_at r)"
  by (auto simp: update_request_status_def Let_def split: option.splits)

text \<open>
  Claim C7, as the code has it. \<open>update_request_status\<close> sets \<open>completed_at\<close> to the
  current time on every transition into \<open>COMPLETED\<close>, \<open>FAILED\<close> or \<open>CALLBACK_SENT\<close>, whether
  or not it was set before, and leaves it as it was on a transition into \<open>PENDING\<close> or
  \<open>PROCESSING\<close>. In \<open>process_async_callback\<close>, when the work succeeds and the delivery
  returns, the record goes through \<open>PROCESSING\<close>, \<open>COMPLETED\<close> and then \<open>CALLBACK_SENT\<close> or
  \<open>CALLBACK_FAILED\<close>; \<open>completed_at\<close> is written at the transition into \<open>COMPLETED\<close> and the
  callback transition leaves it unchanged. When the work raises, the record goes through
  \<open>PROCESSING\<close> and \<open>FAILED\<close>, and \<open>completed_at\<close> is written at the transition into
  \<open>FAILED\<close>.
\<close>

theorem completed_at_written:
  "(db req_id = Some r \<and> new_status \<in> set [COMPLETED, FAILED, CALLBACK_SENT]
    \<longrightarrow> (\<exists>r'. snd (update_request_status db req_id new_status res ms err now) req_id = Some r'
             \<and> status r' = new_status \<and> completed_at r' = Some now))
   \<and> (db req_id = Some r \<and> new_status \<in> set [PENDING, PROCESSING]
    \<longrightarrow> (\<exists>r'. snd (update_request_status db req_id new_status res ms err now) req_id = Some r'
             \<and> status r' = new_status \<and> completed_at r' = completed_at r))
   \<and> (db req_id = Some r
    \<longrightarrow> (\<exists>db' trace.
           process_async_callback self db req_id (Inr (work_result, work_ms)) now (Inr delivered)
               now_failed = (db', trace)
           \<and> map status trace
               = [PROCESSING, COMPLETED, if delivered then CALLBACK_SENT else CALLBACK_FAILED]
           \<and> map completed_at trace = [completed_at r, Some now, Some now]
           \<and> db' req_id = Some (last trace)))
   \<and> (db req_id = Some r
    \<longrightarrow> (\<exists>db' trace.
           process_async_callback self db req_id (Inl msg) now callback now_failed = (db', trace)
           \<and> map status trace = [PROCESSING, FAILED]
           \<and> map completed_at trace = [completed_at r, Some now_failed]
           \<and> db' req_id = Some (last trace)))"
proof (intro conjI impI)
  assume "db req_id = Some r \<and> new_status \<in> set [COMPLETED, FAILED, CALLBACK_SENT]"
  with update_present[of db req_id r new_status res ms err now]
  show "\<exists>r'. snd (update_request_status db req_id new_status res ms err now) req_id = Some r'
             \<and> status r' = new_status \<and> completed_at r' = Some now"
    by auto
next
  assume "db req_id = Some r \<and> new_status \<in> set [PENDING, PROCESSING]"
  with update_present[of db req_id r new_status res ms err now]
  show "\<exists>r'. snd (update_request_status db req_id new_status res ms err now) req_id = Some r'
             \<and> status r' = new_status \<and> completed_at r' = completed_at r"
    by auto
next
  assume "db req_id = Some r"
  then show "\<exists>db' trace.
           process_async_callback self db req_id (Inr (work_result, work_ms)) now (Inr delivered)
               now_failed = (db', trace)
           \<and> map status trace
               = [PROCESSING, COMPLETED, if delivered then CALLBACK_SENT else CALLBACK_FAILED]
           \<and> map completed_at trace = [completed_at r, Some now, Some now]
           \<and> db' req_id = Some (last trace)"
    by (simp add: process_async_callback_def Let_def)
next
  assume "db req_id = Some r"
  then show "\<exists>db' trace.
           process_async_callback self db req_id (Inl msg) now callback now_failed = (db', trace)
           \<and> map status trace = [PROCESSING, FAILED]
           \<and> map completed_at trace = [completed_at r, Some now_failed]
           \<and> db' req_id = Some (last trace)"
    by (simp add: process_async_callback_def Let_def)
qed

theorem completed_at_written_witness:
  "(\<exists>r'. snd (update_request_status example_db ''r1'' CALLBACK_SENT None None None 20) ''r1'' = Some r'
         \<and> status r' = CALLBACK_SENT \<and> completed_at r' = Some 20)
   \<and> (\<exists>r'. snd (update_request_status example_db ''r2'' PROCESSING None None None 20) ''r2'' = Some r'
         \<and> status r' = PROCESSING \<and> completed_at r' = None)
   \<and> (\<exists>db' trace.
         process_async_callback CallbackService_init example_db ''r2'' (Inr ([(''ok'', ''true'')], 5)) 20
             (Inr False) 30 = (db', trace)
         \<and> map status trace = [PROCESSING, COMPLETED, CALLBACK_FAILED]
         \<and> map completed_at trace = [None, Some 20, Some 20]
         \<and> db' ''r2'' = Some (last trace))
   \<and> (\<exists>db' trace.
         process_async_callback CallbackService_init example_db ''r2'' (Inl ''boom'') 20
             (Inr False) 30 = (db', trace)
         \<and> map status trace = [PROCESSING, FAILED]
         \<and> map completed_at trace = [None, Some 30]
         \<and> db' ''r2'' = Some (last trace))"
  using completed_at_written[where db = example_db and req_id = "''r1''" and r = example_record
          and new_status = CALLBACK_SENT and res = None and ms = None and err = None and now = 20
          and self = CallbackService_init and work_result = "[(''ok'', ''true'')]" and work_ms = 5
          and delivered = False and now_failed = 30 and msg = "''boom''" and callback = "Inr False"]
        completed_at_written[where db = example_db and req_id = "''r2''"
          and r = example_async_record
          and new_status = PROCESSING and res = None and ms = None and err = None and now = 20
          and self = CallbackService_init and work_result = "[(''ok'', ''true'')]" and work_ms = 5
          and delivered = False and now_failed = 30 and msg = "''boom''" and callback = "Inr False"]
  by (simp add: example_db_def example_record_def example_async_record_def)

text \<open>
  Claim C7 as stated has a terminal transition leave a \<open>completed_at\<close> that is already
  set. A record completed at time 10 that \<open>update_request_status\<close> moves to \<open>FAILED\<close> at
  time 20 has \<open>completed_at = 20\<close> afterwards.
\<close>

theorem completed_at_overwritten:
  "map_option status (example_db ''r1'') = Some COMPLETED
   \<and> map_option completed_at (example_db ''r1'') = Some (Some 10)
   \<and> map_option status
        (snd (update_request_status example_db ''r1'' FAILED None None (Some ''boom'') 20) ''r1'')
      = Some FAILED
   \<and> map_option completed_at
        (snd (update_request_status example_db ''r1'' FAILED None None (Some ''boom'') 20) ''r1'')
      = Some (Some 20)"
  by (simp add: update_request_status_def example_db_def example_record_def)

text \<open>
  Claim C10, as the code has it. For a request id that is not in the table
  \<open>update_request_status\<close> changes nothing and returns \<open>None\<close>; for an id that is present it
  writes the updated row, with the new status, under the same id and returns \<open>None\<close> too.
\<close>

theorem update_of_unknown_id:
  "(db req_id = None
    \<longrightarrow> update_request_status db req_id new_status res ms err now = ((), db))
   \<and> (db req_id = Some r
    \<longrightarrow> (\<exists>r'. update_request_status db req_id new_status res ms err now
                 = ((), db(req_id \<mapsto> r'))
             \<and> status r' = new_status \<and> request_id r' = request_id r))"
  using update_present[of db req_id r new_status res ms err now]
  by (auto simp: update_request_status_def)

theorem update_of_unknown_id_witness:
  "update_request_status example_db ''missing'' FAILED None None None 20 = ((), example_db)
   \<and> (\<exists>r'. update_request_status example_db ''r1'' FAILED None None None 20
              = ((), example_db(''r1'' \<mapsto> r'))
          \<and> status r' = FAILED \<and> request_id r' = request_id example_record)"
  using update_of_unknown_id[where db = example_db and req_id = "''missing''" and r = example_record
          and new_status = FAILED and res = None and ms = None and err = None and now = 20]
        update_of_unknown_id[where db = example_db and req_id = "''r1''" and r = example_record
          and new_status = FAILED and res = None and ms = None and err = None and now = 20]
  by (simp add: example_db_def)

text \<open>
  Claim C10 as stated has the method report an unknown id by an outcome that differs from
  success. The value returned for the unknown id \<open>missing\<close> is the value returned for the
  stored id \<open>r1\<close>.
\<close>

theorem unknown_id_returns_as_success:
  "example_db ''missing'' = None
   \<and> example_db ''r1'' = Some example_record
   \<and> fst (update_request_status example_db ''missing'' COMPLETED None None None 20)
      = fst (update_request_status example_db ''r1'' COMPLETED None None None 20)"
  by (simp add: example_db_def)

section \<open>The circuit key\<close>

lemma key_8080: "get_domain ''http://example.com:8080/callback'' = Inr ''example.com:8080''"
  by code_simp

lemma key_9090: "get_domain ''http://example.com:9090/callback'' = Inr ''example.com:9090''"
  by code_simp

lemma key_8080_https:
  "get_domain ''https://example.com:8080/callback'' = Inr ''example.com:8080''"
  by code_simp

lemma hostname_8080:
  "url_hostname ''http://example.com:8080/callback'' = Inr (Some ''example.com'')"
  by code_simp

lemma hostname_9090:
  "url_hostname ''http://example.com:9090/callback'' = Inr (Some ''example.com'')"
  by code_simp

lemma open_for_8080_only:
  "send_callback example_service_8080 ''http://example.com:8080/callback'' 160
       (always (Response 200)) jitter_low 170
     = Inr (False, example_service_8080, [])
   \<and> send_callback example_service_8080 ''http://example.com:9090/callback'' 160
       (always (Response 200)) jitter_low 170
     = Inr (True, example_service_8080, [Post 0, RecordSuccess])"
  by (simp add: send_callback_def key_8080 key_9090 is_circuit_open_def dict_get_def
        dict_contains_def example_service_8080_def CallbackService_init_def always_def
        send_callback_loop.simps record_callback_success_def)

text \<open>
  Claim C8. The claim makes the circuit-breaker key the host name alone, so that two URLs
  with the same host and different ports share one circuit record. \<open>_get_domain\<close> returns
  \<open>urlparse(url).netloc\<close>, which keeps the port. The URLs
  \<open>http://example.com:8080/callback\<close> and \<open>http://example.com:9090/callback\<close> have the
  host name \<open>example.com\<close> (their \<open>.hostname\<close>, which \<open>async_endpoint\<close> reads) and the keys
  \<open>example.com:8080\<close> and \<open>example.com:9090\<close>: two circuit records. With five failures
  recorded under the first key, the last one 60 seconds ago, a delivery to port 8080 is
  refused without a POST, and a delivery to port 9090 is posted. The scheme does not
  enter the key: the \<open>https\<close> URL of port 8080 has the key of the \<open>http\<close> one.
\<close>

theorem ports_have_separate_circuit_keys:
  "url_hostname ''http://example.com:8080/callback'' = Inr (Some ''example.com'')
   \<and> url_hostname ''http://example.com:9090/callback'' = Inr (Some ''example.com'')
   \<and> get_domain ''http://example.com:8080/callback'' = Inr ''example.com:8080''
   \<and> get_domain ''http://example.com:9090/callback'' = Inr ''example.com:9090''
   \<and> get_domain ''http://example.com:8080/callback'' \<noteq> get_domain ''http://example.com:9090/callback''
   \<and> get_domain ''https://example.com:8080/callback'' = get_domain ''http://example.com:8080/callback''
   \<and> send_callback example_service_8080 ''http://example.com:8080/callback'' 160
         (always (Response 200)) jitter_low 170
       = Inr (False, example_service_8080, [])
   \<and> send_callback example_service_8080 ''http://example.com:9090/callback'' 160
         (always (Response 200)) jitter_low 170
       = Inr (True, example_service_8080, [Post 0, RecordSuccess])"
  using open_for_8080_only
  by (simp add: key_8080 key_9090 key_8080_https hostname_8080 hostname_9090)

section \<open>Callback URL validation\<close>

text \<open>
  Claim C1. The claim has \<open>http://127.0.0.1/x\<close>, \<open>http://169.254.169.254/latest/meta-data/\<close>,
  \<open>ftp://evil.com/\<close> and \<open>file:///etc/passwd\<close> rejected with status 400 in production, and
  \<open>https://example.com/callback\<close> accepted. On the code, \<open>ftp://evil.com/\<close> and
  \<open>file:///etc/passwd\<close> are refused by the request model, in every environment, whatever
  else \<open>HttpUrl\<close> refuses and whatever the data of the request, and the answer has status
  422. The body of the handler does not run for them; its own check would raise
  \<open>INVALID_CALLBACK_URL\<close> with status 400. The other three URLs, handed to the handler as
  they are written, behave as the claim says: \<open>http://127.0.0.1/x\<close> is answered with 400
  in production (\<open>BLOCKED_HOST\<close>), \<open>http://169.254.169.254/latest/meta-data/\<close> with 400 in
  production (\<open>PRIVATE_IP_BLOCKED\<close>) and outside it (\<open>METADATA_BLOCKED\<close>), and
  \<open>https://example.com/callback\<close> passes every check.
\<close>

theorem non_http_callback_url_answered_422:
  "async_endpoint environment pydantic_url valid_input ''ftp://evil.com/''
     = Inl RequestValidationError
   \<and> async_endpoint environment pydantic_url valid_input ''file:///etc/passwd''
     = Inl RequestValidationError
   \<and> response_status RequestValidationError = 422
   \<and> callback_url_check environment ''ftp://evil.com/''
     = Inl (HTTPException 400 ''INVALID_CALLBACK_URL'')
   \<and> callback_url_check environment ''file:///etc/passwd''
     = Inl (HTTPException 400 ''INVALID_CALLBACK_URL'')
   \<and> async_endpoint ''production'' Some True ''http://127.0.0.1/x''
     = Inl (Raised (HTTPException 400 ''BLOCKED_HOST''))
   \<and> async_endpoint ''production'' Some True ''http://169.254.169.254/latest/meta-data/''
     = Inl (Raised (HTTPException 400 ''PRIVATE_IP_BLOCKED''))
   \<and> async_endpoint ''development'' Some True ''http://169.254.169.254/latest/meta-data/''
     = Inl (Raised (HTTPException 400 ''METADATA_BLOCKED''))
   \<and> async_endpoint ''production'' Some True ''https://example.com/callback'' = Inr ()"
  by code_simp

end
